theory Spec2Isabelle
  imports Main "HOL-Library.Sublist"
begin

section \<open>Python strings, scalars and exceptions\<close>

text \<open>
  Strings are byte strings restricted to ASCII. \<open>py_isspace\<close> is \<open>str.isspace\<close> on
  one ASCII character; Python 3 uses the same set for \<open>str.strip()\<close> and for the
  regular-expression class \<open>\s\<close> of a \<open>str\<close> pattern.
\<close>

definition py_isspace :: "char \<Rightarrow> bool" where
  "py_isspace c = (c \<in> set [CHR 0x09, CHR 0x0A, CHR 0x0B, CHR 0x0C, CHR 0x0D,
                             CHR 0x1C, CHR 0x1D, CHR 0x1E, CHR 0x1F, CHR 0x20])"

definition is_digit :: "char \<Rightarrow> bool" where
  "is_digit c = (c \<in> set ''0123456789'')"

definition is_upper :: "char \<Rightarrow> bool" where
  "is_upper c = (c \<in> set ''ABCDEFGHIJKLMNOPQRSTUVWXYZ'')"

definition is_lower :: "char \<Rightarrow> bool" where
  "is_lower c = (c \<in> set ''abcdefghijklmnopqrstuvwxyz'')"

definition is_alnum :: "char \<Rightarrow> bool" where
  "is_alnum c = (is_lower c \<or> is_upper c \<or> is_digit c)"

text \<open>\<open>s.strip()\<close> and \<open>s.strip('*')\<close>: drop the characters at both ends.\<close>

definition strip_by :: "(char \<Rightarrow> bool) \<Rightarrow> string \<Rightarrow> string" where
  "strip_by P s = rev (dropWhile P (rev (dropWhile P s)))"

definition py_strip :: "string \<Rightarrow> string" where
  "py_strip s = strip_by py_isspace s"

definition strip_star :: "string \<Rightarrow> string" where
  "strip_star s = strip_by (\<lambda>c. c = CHR ''*'') s"

text \<open>\<open>s.upper()\<close> and \<open>s.lower()\<close> on ASCII.\<close>

definition upper_char :: "char \<Rightarrow> char" where
  "upper_char c =
     (case map_of (zip ''abcdefghijklmnopqrstuvwxyz'' ''ABCDEFGHIJKLMNOPQRSTUVWXYZ'') c of
        Some u \<Rightarrow> u | None \<Rightarrow> c)"

definition lower_char :: "char \<Rightarrow> char" where
  "lower_char c =
     (case map_of (zip ''ABCDEFGHIJKLMNOPQRSTUVWXYZ'' ''abcdefghijklmnopqrstuvwxyz'') c of
        Some l \<Rightarrow> l | None \<Rightarrow> c)"

definition py_upper :: "string \<Rightarrow> string" where
  "py_upper s = map upper_char s"

definition py_lower :: "string \<Rightarrow> string" where
  "py_lower s = map lower_char s"

text \<open>
  \<open>s.split(sep, maxsplit)\<close> for a one-character separator: at most \<open>maxsplit\<close> cuts,
  empty pieces kept. \<open>s.split(sep)\<close> never needs more than \<open>len(s)\<close> cuts.
\<close>

fun py_split :: "char \<Rightarrow> nat \<Rightarrow> string \<Rightarrow> string list" where
  "py_split sep 0 s = [s]"
| "py_split sep (Suc k) s =
     (case dropWhile (\<lambda>c. c \<noteq> sep) s of
        [] \<Rightarrow> [s]
      | _ # rest \<Rightarrow> takeWhile (\<lambda>c. c \<noteq> sep) s # py_split sep k rest)"

definition py_split_all :: "char \<Rightarrow> string \<Rightarrow> string list" where
  "py_split_all sep s = py_split sep (length s) s"

text \<open>\<open>re.compile(r'\s+').split(s, maxsplit)\<close>: cut at maximal runs of whitespace.\<close>

fun re_split_ws :: "nat \<Rightarrow> string \<Rightarrow> string list" where
  "re_split_ws 0 s = [s]"
| "re_split_ws (Suc k) s =
     (case dropWhile (\<lambda>c. \<not> py_isspace c) s of
        [] \<Rightarrow> [s]
      | c # rest \<Rightarrow>
          takeWhile (\<lambda>c. \<not> py_isspace c) s # re_split_ws k (dropWhile py_isspace (c # rest)))"

text \<open>
  The entries of an Ansible option of type \<open>list\<close> arrive as YAML scalars; the model
  covers strings and integers. \<open>py_str\<close> is \<open>str(v)\<close>, \<open>py_truthy\<close> is \<open>bool(v)\<close>.
\<close>

datatype pyscalar = PStr string | PInt int

fun dec_digits :: "nat \<Rightarrow> string" where
  "dec_digits n =
     (if n < 10 then [''0123456789'' ! n]
      else dec_digits (n div 10) @ [''0123456789'' ! (n mod 10)])"

fun py_str :: "pyscalar \<Rightarrow> string" where
  "py_str (PStr s) = s"
| "py_str (PInt i) = (if i < 0 then CHR ''-'' # dec_digits (nat (- i)) else dec_digits (nat i))"

fun py_truthy :: "pyscalar \<Rightarrow> bool" where
  "py_truthy (PStr s) = (s \<noteq> [])"
| "py_truthy (PInt i) = (i \<noteq> 0)"

text \<open>
  The exceptions the two modules can meet. \<open>ValidationError\<close> and \<open>OperatorCmdError\<close>
  are the module's own subclasses of \<open>Error\<close> and keep the constructor's argument;
  \<open>exn_msg\<close> is the \<open>msg\<close> attribute their \<open>__init__\<close> builds from it.
  \<open>PatternNotModelled\<close> is not a Python exception: it marks a pattern string outside
  the fragment of regular expressions this development interprets.
\<close>

datatype py_exn =
    ValidationError string
  | OperatorCmdError string
  | IndexError
  | TypeError string
  | ExternalError string
  | PatternNotModelled string

datatype exn_class = ValidationError_class | OperatorCmdError_class | Other_class

fun class_of :: "py_exn \<Rightarrow> exn_class" where
  "class_of (ValidationError m) = ValidationError_class"
| "class_of (OperatorCmdError m) = OperatorCmdError_class"
| "class_of e = Other_class"

fun exn_msg :: "py_exn \<Rightarrow> string" where
  "exn_msg (ValidationError m) =
     ''An error occurred during validate the input parameters: '' @ [CHR 0x22] @ m @ [CHR 0x22]"
| "exn_msg (OperatorCmdError m) =
     ''An error occurred during issue the operator command, the response is '' @
       [CHR 0x22] @ m @ [CHR 0x22]"
| "exn_msg e = []"

section \<open>Regular expressions\<close>

text \<open>
  The patterns of the source are sequences of character classes with a repetition
  range, and the anchors \<open>^\<close> and \<open>$\<close>. \<open>Cls P lo hi\<close> is a class repeated \<open>lo\<close> to
  \<open>hi\<close> times (\<open>None\<close>: unbounded). \<open>rmatch r b s\<close> holds when \<open>r\<close> matches a prefix
  of \<open>s\<close>, where \<open>b\<close> says that \<open>s\<close> starts at the beginning of the subject;
  \<open>re_search\<close> is \<open>pattern.search(s)\<close> read as a truth value. \<open>$\<close> also matches just
  before a final newline, as in Python.
\<close>

datatype item = Cls "char \<Rightarrow> bool" nat "nat option" | Bol | Eol

fun rmatch :: "item list \<Rightarrow> bool \<Rightarrow> string \<Rightarrow> bool" where
  "rmatch [] b s = True"
| "rmatch (Bol # r) b s = (b \<and> rmatch r b s)"
| "rmatch (Eol # r) b s = ((s = [] \<or> s = [CHR 0x0A]) \<and> rmatch r b s)"
| "rmatch (Cls P lo hi # r) b s =
     (let run = length (takeWhile P s);
          top = (case hi of None \<Rightarrow> run | Some h \<Rightarrow> min h run)
      in list_ex (\<lambda>k. rmatch r (b \<and> k = 0) (drop k s)) [lo ..< Suc top])"

definition re_search :: "item list \<Rightarrow> string \<Rightarrow> bool" where
  "re_search r s = list_ex (\<lambda>k. rmatch r (k = 0) (drop k s)) [0 ..< Suc (length s)]"

text \<open>
  \<open>re.compile(p)\<close> for a pattern string without metacharacters: every character
  stands for itself. Other pattern strings are outside the modelled fragment.
\<close>

definition is_meta :: "char \<Rightarrow> bool" where
  "is_meta c = (c \<in> set (''.^$*+?{}[]|()'' @ [CHR 0x5C]))"

definition literal_pattern :: "string \<Rightarrow> item list" where
  "literal_pattern p = map (\<lambda>c. Cls (\<lambda>d. d = c) 1 (Some 1)) p"

definition re_compile :: "string \<Rightarrow> item list option" where
  "re_compile p = (if list_ex is_meta p then None else Some (literal_pattern p))"

section \<open>zos_operator_outstanding_action: records\<close>

text \<open>
  A record is a Python \<open>dict\<close> from field name to string, kept as an association
  list in insertion order with distinct keys. \<open>dict_setitem\<close> is \<open>d[k] = v\<close>,
  \<open>dict_update\<close> is \<open>d.update(e)\<close> on a copy, \<open>map_of d k\<close> is \<open>d.get(k)\<close>.
\<close>

type_synonym pydict = "(string \<times> string) list"

fun dict_setitem :: "pydict \<Rightarrow> string \<Rightarrow> string \<Rightarrow> pydict" where
  "dict_setitem [] k v = [(k, v)]"
| "dict_setitem ((k', v') # d) k v =
     (if k' = k then (k, v) # d else (k', v') # dict_setitem d k v)"

definition dict_update :: "pydict \<Rightarrow> pydict \<Rightarrow> pydict" where
  "dict_update d e = foldl (\<lambda>acc (k, v). dict_setitem acc k v) d e"

section \<open>zos_operator_outstanding_action: validation\<close>

text \<open>The compiled forms of \<open>'^[0-9]{2,}$'\<close> and \<open>'^[a-zA-Z0-9]{1,8}$'\<close>.\<close>

definition regex_request_number :: "item list" where
  "regex_request_number = [Bol, Cls is_digit 2 None, Eol]"

definition regex_name :: "item list" where
  "regex_name = [Bol, Cls is_alnum 1 (Some 8), Eol]"

definition validate_parameters_based_on_regex :: "string \<Rightarrow> item list \<Rightarrow> py_exn + string" where
  "validate_parameters_based_on_regex val regex =
     (if re_search regex val then Inr val else Inl (ValidationError val))"

fun request_number_list_loop :: "pyscalar list \<Rightarrow> py_exn + unit" where
  "request_number_list_loop [] = Inr ()"
| "request_number_list_loop (v # vs) =
     (if py_truthy v \<and> v \<noteq> PStr ''all'' then
        (case validate_parameters_based_on_regex (py_str v) regex_request_number of
           Inl e \<Rightarrow> Inl e
         | Inr _ \<Rightarrow> request_number_list_loop vs)
      else request_number_list_loop vs)"

definition request_number_list_type :: "pyscalar list \<Rightarrow> py_exn + pyscalar list" where
  "request_number_list_type arg_val =
     (case request_number_list_loop arg_val of Inl e \<Rightarrow> Inl e | Inr _ \<Rightarrow> Inr arg_val)"

text \<open>\<open>system_type\<close>, \<open>message_id_type\<close> and \<open>jobname_type\<close> have the same body.\<close>

definition system_type :: "string \<Rightarrow> py_exn + string" where
  "system_type arg_val =
     (let a = (if arg_val \<noteq> [] \<and> arg_val \<noteq> ''*'' then strip_star arg_val else arg_val)
      in case validate_parameters_based_on_regex a regex_name of
           Inl e \<Rightarrow> Inl e | Inr _ \<Rightarrow> Inr a)"

definition message_id_type :: "string \<Rightarrow> py_exn + string" where
  "message_id_type arg_val =
     (let a = (if arg_val \<noteq> [] \<and> arg_val \<noteq> ''*'' then strip_star arg_val else arg_val)
      in case validate_parameters_based_on_regex a regex_name of
           Inl e \<Rightarrow> Inl e | Inr _ \<Rightarrow> Inr a)"

definition jobname_type :: "string \<Rightarrow> py_exn + string" where
  "jobname_type arg_val =
     (let a = (if arg_val \<noteq> [] \<and> arg_val \<noteq> ''*'' then strip_star arg_val else arg_val)
      in case validate_parameters_based_on_regex a regex_name of
           Inl e \<Rightarrow> Inl e | Inr _ \<Rightarrow> Inr a)"

section \<open>zos_operator_outstanding_action: command execution\<close>

text \<open>
  \<open>OperatorCmd.execute\<close> belongs to an external library; it is a parameter that maps
  the command text to the pair of \<open>rc\<close> and \<open>message\<close> of the dict it returns.
\<close>

definition execute_command :: "(string \<Rightarrow> int \<times> string) \<Rightarrow> string \<Rightarrow> py_exn + string" where
  "execute_command OperatorCmd_execute operator_cmd =
     (let rc_message = OperatorCmd_execute operator_cmd;
          rc = fst rc_message;
          message = snd rc_message
      in if rc > 0 then Inl (OperatorCmdError message) else Inr message)"

section \<open>zos_operator_outstanding_action: the two parsers\<close>

definition pattern_without_job_id :: "item list" where
  "pattern_without_job_id =
     [Cls py_isspace 0 None, Cls is_digit 2 None, Cls py_isspace 1 (Some 1),
      Cls is_upper 1 (Some 1), Cls py_isspace 1 (Some 1), Cls is_alnum 1 (Some 8)]"

definition pattern_with_job_id :: "item list" where
  "pattern_with_job_id =
     [Cls py_isspace 0 None, Cls is_digit 2 None, Cls py_isspace 1 (Some 1),
      Cls is_upper 1 (Some 1), Cls py_isspace 1 (Some 1),
      Cls (\<lambda>c. is_upper c \<or> is_digit c) 1 (Some 8), Cls py_isspace 1 None,
      Cls (\<lambda>c. is_upper c \<or> is_digit c) 1 (Some 8), Cls py_isspace 1 (Some 1)]"

definition pattern_with_jobname :: "item list" where
  "pattern_with_jobname =
     [Cls py_isspace 0 None, Cls is_digit 2 None, Cls py_isspace 1 (Some 1),
      Cls is_upper 1 (Some 1), Cls py_isspace 1 (Some 1),
      Cls (\<lambda>c. is_upper c \<or> is_digit c) 1 (Some 8), Cls py_isspace 1 None]"

text \<open>
  The local variables of \<open>parse_result_a\<close>. The loop assigns \<open>endflag\<close> on the last
  line and tests \<open>end_flag\<close>, two different names, so both are kept.
\<close>

record parse_state =
  dict_temp :: pydict
  lst :: "pydict list"
  request_temp :: string
  end_flag :: bool
  endflag :: bool


text \<open>The flush at the top of the header branch: \<open>if request_temp: ...\<close>.\<close>

definition flush :: "parse_state \<Rightarrow> parse_state" where
  "flush st =
     (if request_temp st \<noteq> [] then
        st\<lparr>lst := lst st @ [dict_setitem (dict_temp st) ''message_text'' (request_temp st)],
           request_temp := [], dict_temp := []\<rparr>
      else st)"

text \<open>
  One iteration of the loop of \<open>parse_result_a\<close> at position \<open>index\<close> of \<open>nlines\<close>
  lines. Reading \<open>elements[i]\<close> past the end raises \<open>IndexError\<close>.
\<close>

definition parse_a_line :: "nat \<Rightarrow> nat \<Rightarrow> parse_state \<Rightarrow> string \<Rightarrow> py_exn + parse_state" where
  "parse_a_line nlines index st raw =
     (let line = py_strip raw;
          m = re_search pattern_without_job_id line;
          n = re_search pattern_with_job_id line;
          st1 = (if index = nlines - 1 then st\<lparr>endflag := True\<rparr> else st)
      in if n \<or> m \<or> end_flag st1 then
           (let st2 = flush st1
            in if n then
                 (let elements = re_split_ws 4 line
                  in if length elements < 5 then Inl IndexError
                     else Inr (st2\<lparr>dict_temp := [(''number'', elements ! 0), (''type'', elements ! 1),
                                                 (''system'', elements ! 2), (''job_id'', elements ! 3)],
                                   request_temp := py_strip (elements ! 4)\<rparr>))
               else if m then
                 (let elements = py_split CHR '' '' 3 line
                  in if length elements < 4 then Inl IndexError
                     else Inr (st2\<lparr>dict_temp := [(''number'', elements ! 0), (''type'', elements ! 1),
                                                 (''system'', elements ! 2)],
                                   request_temp := py_strip (elements ! 3)\<rparr>))
               else Inr st2)
         else if request_temp st1 \<noteq> [] then
           Inr (st1\<lparr>request_temp := request_temp st1 @ '' '' @ line\<rparr>)
         else Inr st1)"

fun parse_a_loop :: "nat \<Rightarrow> nat \<Rightarrow> parse_state \<Rightarrow> string list \<Rightarrow> py_exn + parse_state" where
  "parse_a_loop nlines index st [] = Inr st"
| "parse_a_loop nlines index st (raw # rest) =
     (case parse_a_line nlines index st raw of
        Inl e \<Rightarrow> Inl e
      | Inr st' \<Rightarrow> parse_a_loop nlines (Suc index) st' rest)"

definition parse_a_init :: parse_state where
  "parse_a_init = \<lparr>dict_temp = [], lst = [], request_temp = [], end_flag = False, endflag = False\<rparr>"

definition parse_result_a :: "string \<Rightarrow> py_exn + pydict list" where
  "parse_result_a result =
     (let lines = py_split_all CHR 0x0A result
      in case parse_a_loop (length lines) 0 parse_a_init lines of
           Inl e \<Rightarrow> Inl e
         | Inr st \<Rightarrow> Inr (lst st))"

text \<open>
  An invariant of the loop of \<open>parse_result_a\<close>: the records appended so far have a
  \<open>system\<close> field, and so has the record in progress.
\<close>

definition system_known :: "parse_state \<Rightarrow> bool" where
  "system_known st =
     ((\<forall>d \<in> set (lst st). map_of d ''system'' \<noteq> None) \<and>
      (request_temp st \<noteq> [] \<longrightarrow> map_of (dict_temp st) ''system'' \<noteq> None))"

definition parse_b_line :: "pydict list \<Rightarrow> string \<Rightarrow> py_exn + pydict list" where
  "parse_b_line acc raw =
     (let line = py_strip raw
      in if re_search pattern_with_jobname line then
           (let elements = re_split_ws 5 line
            in if length elements < 5 then Inl IndexError
               else Inr (acc @ [[(''number'', elements ! 0), (''jobname'', elements ! 2),
                                 (''message_id'', elements ! 4)]]))
         else Inr acc)"

fun parse_b_loop :: "pydict list \<Rightarrow> string list \<Rightarrow> py_exn + pydict list" where
  "parse_b_loop acc [] = Inr acc"
| "parse_b_loop acc (raw # rest) =
     (case parse_b_line acc raw of
        Inl e \<Rightarrow> Inl e
      | Inr acc' \<Rightarrow> parse_b_loop acc' rest)"

definition parse_result_b :: "string \<Rightarrow> py_exn + pydict list" where
  "parse_result_b result = parse_b_loop [] (py_split_all CHR 0x0A result)"

section \<open>zos_operator_outstanding_action: merging\<close>

definition merge_inner :: "pydict \<Rightarrow> pydict list \<Rightarrow> pydict list \<Rightarrow> pydict list" where
  "merge_inner dict_a merged_list list_b =
     foldl (\<lambda>acc dict_b.
              if map_of dict_a ''number'' = map_of dict_b ''number''
              then acc @ [dict_update dict_a dict_b] else acc)
           merged_list list_b"

definition merge_list :: "pydict list \<Rightarrow> pydict list \<Rightarrow> pydict list" where
  "merge_list list_a list_b =
     foldl (\<lambda>acc dict_a. merge_inner dict_a acc list_b) [] list_a"

definition create_merge_list :: "(string \<Rightarrow> int \<times> string) \<Rightarrow> py_exn + pydict list" where
  "create_merge_list OperatorCmd_execute =
     (case execute_command OperatorCmd_execute ''d r,a,s'' of
        Inl e \<Rightarrow> Inl e
      | Inr message_a \<Rightarrow>
     (case execute_command OperatorCmd_execute ''d r,a,jn'' of
        Inl e \<Rightarrow> Inl e
      | Inr message_b \<Rightarrow>
     (case parse_result_a message_a of
        Inl e \<Rightarrow> Inl e
      | Inr list_a \<Rightarrow>
     (case parse_result_b message_b of
        Inl e \<Rightarrow> Inl e
      | Inr list_b \<Rightarrow> Inr (merge_list list_a list_b)))))"

section \<open>zos_operator_outstanding_action: filtering\<close>

record params =
  request_number_list :: "pyscalar list"
  system :: "string option"
  message_id :: "string option"
  jobname :: "string option"

text \<open>The inner \<open>for ... break\<close>: the first record with the requested number.\<close>

fun first_with_number :: "string \<Rightarrow> pydict list \<Rightarrow> pydict list" where
  "first_with_number num [] = []"
| "first_with_number num (d # ds) =
     (if map_of d ''number'' = Some num then [d] else first_with_number num ds)"

definition select_numbers :: "pyscalar list \<Rightarrow> pydict list \<Rightarrow> pydict list" where
  "select_numbers rnl merged_list =
     (if ''all'' \<notin> set (map (\<lambda>r. py_lower (py_str r)) rnl) then
        foldl (\<lambda>newlist num. newlist @ first_with_number (py_str num) merged_list) [] rnl
      else merged_list)"

text \<open>
  \<open>handle_conditions\<close>: the pattern is compiled before the loop; \<open>regex.search(None)\<close>
  on a record without the field raises \<open>TypeError\<close>.
\<close>

fun handle_loop :: "item list \<Rightarrow> string \<Rightarrow> pydict list \<Rightarrow> pydict list \<Rightarrow> py_exn + pydict list" where
  "handle_loop regex condition_type newlist [] = Inr newlist"
| "handle_loop regex condition_type newlist (d # ds) =
     (case map_of d condition_type of
        None \<Rightarrow> Inl (TypeError ''expected string or bytes-like object'')
      | Some field \<Rightarrow>
          handle_loop regex condition_type
            (if re_search regex field then newlist @ [d] else newlist) ds)"

definition handle_conditions :: "pydict list \<Rightarrow> string \<Rightarrow> string \<Rightarrow> py_exn + pydict list" where
  "handle_conditions l condition_type condition_values =
     (case re_compile condition_values of
        None \<Rightarrow> Inl (PatternNotModelled condition_values)
      | Some regex \<Rightarrow> handle_loop regex condition_type [] l)"

text \<open>\<open>if system: newlist = handle_conditions(newlist, 'system', system.upper().strip('*'))\<close>\<close>

definition apply_condition :: "string \<Rightarrow> string option \<Rightarrow> pydict list \<Rightarrow> py_exn + pydict list" where
  "apply_condition condition_type crit newlist =
     (case crit of
        None \<Rightarrow> Inr newlist
      | Some v \<Rightarrow>
          if v = [] then Inr newlist
          else handle_conditions newlist condition_type (strip_star (py_upper v)))"

definition filter_requests :: "pydict list \<Rightarrow> params \<Rightarrow> py_exn + pydict list" where
  "filter_requests merged_list p =
     (case apply_condition ''system'' (system p)
             (select_numbers (request_number_list p) merged_list) of
        Inl e \<Rightarrow> Inl e
      | Inr l1 \<Rightarrow>
     (case apply_condition ''jobname'' (jobname p) l1 of
        Inl e \<Rightarrow> Inl e
      | Inr l2 \<Rightarrow> apply_condition ''message_id'' (message_id p) l2))"

text \<open>
  What the filter on one field is meant to keep: with no criterion (absent or
  empty) every record, otherwise the records whose field contains the upper-cased,
  wildcard-stripped criterion as a substring. \<open>has_filter_fields\<close> says that a
  record has the three fields the filters read, \<open>literal_criterion\<close> that the
  pattern made from a criterion has no metacharacter.
\<close>

definition criterion_holds :: "string \<Rightarrow> string option \<Rightarrow> pydict \<Rightarrow> bool" where
  "criterion_holds field crit d =
     (case crit of
        None \<Rightarrow> True
      | Some v \<Rightarrow>
          v = [] \<or>
          (case map_of d field of
             None \<Rightarrow> False
           | Some f \<Rightarrow> sublist (strip_star (py_upper v)) f))"

definition has_filter_fields :: "pydict \<Rightarrow> bool" where
  "has_filter_fields d =
     (map_of d ''system'' \<noteq> None \<and> map_of d ''jobname'' \<noteq> None \<and>
      map_of d ''message_id'' \<noteq> None)"

definition literal_criterion :: "string option \<Rightarrow> bool" where
  "literal_criterion crit =
     (case crit of None \<Rightarrow> True | Some v \<Rightarrow> \<not> list_ex is_meta (strip_star (py_upper v)))"

definition no_request_message :: string where
  "no_request_message =
     ''There is no such request given the condition, check your command or update your options.''"

definition find_required_request :: "(string \<Rightarrow> int \<times> string) \<Rightarrow> params \<Rightarrow> py_exn + pydict list" where
  "find_required_request OperatorCmd_execute p =
     (case create_merge_list OperatorCmd_execute of
        Inl e \<Rightarrow> Inl e
      | Inr merged_list \<Rightarrow>
     (case filter_requests merged_list p of
        Inl e \<Rightarrow> Inl e
      | Inr requests \<Rightarrow>
          if requests \<noteq> [] then Inr requests
          else Inl (OperatorCmdError no_request_message)))"

section \<open>zos_tso_command\<close>

text \<open>
  The values the module puts into its result. Lists, dicts and sets are unhashable
  in Python; \<open>type_name\<close> is the name the \<open>TypeError\<close> of \<open>hash\<close> reports.
\<close>

datatype pyval =
    PyNone
  | PyBool bool
  | PyInt int
  | PyStr string
  | PyList "pyval list"
  | PyDict "(string \<times> pyval) list"
  | PySet "pyval list"

fun hashable :: "pyval \<Rightarrow> bool" where
  "hashable (PyList xs) = False"
| "hashable (PyDict kvs) = False"
| "hashable (PySet xs) = False"
| "hashable v = True"

fun type_name :: "pyval \<Rightarrow> string" where
  "type_name PyNone = ''NoneType''"
| "type_name (PyBool b) = ''bool''"
| "type_name (PyInt i) = ''int''"
| "type_name (PyStr s) = ''str''"
| "type_name (PyList xs) = ''list''"
| "type_name (PyDict kvs) = ''dict''"
| "type_name (PySet xs) = ''set''"

definition unhashable :: "pyval \<Rightarrow> py_exn" where
  "unhashable v = TypeError (''unhashable type: '' @ [CHR 0x27] @ type_name v @ [CHR 0x27])"

text \<open>
  The set display \<open>{x, y, ...}\<close>: the elements are hashed from left to right and the
  first unhashable one raises. Duplicates among hashable elements are dropped.
\<close>

fun build_set :: "pyval list \<Rightarrow> pyval list \<Rightarrow> py_exn + pyval" where
  "build_set acc [] = Inr (PySet acc)"
| "build_set acc (v # vs) =
     (if hashable v then build_set (if v \<in> set acc then acc else acc @ [v]) vs
      else Inl (unhashable v))"

text \<open>\<open>str.splitlines()\<close> on ASCII; \<open>cr\<close> says that the previous character was a carriage return.\<close>

definition is_linebreak :: "char \<Rightarrow> bool" where
  "is_linebreak c = (c \<in> set [CHR 0x0A, CHR 0x0B, CHR 0x0C, CHR 0x0D, CHR 0x1C, CHR 0x1D, CHR 0x1E])"

fun splitlines_from :: "bool \<Rightarrow> string \<Rightarrow> string \<Rightarrow> string list" where
  "splitlines_from cr cur [] = (if cur = [] then [] else [cur])"
| "splitlines_from cr cur (c # cs) =
     (if cr \<and> c = CHR 0x0A then splitlines_from False cur cs
      else if is_linebreak c then cur # splitlines_from (c = CHR 0x0D) [] cs
      else splitlines_from False (cur @ [c]) cs)"

definition splitlines :: "string \<Rightarrow> string list" where
  "splitlines s = splitlines_from False [] s"

text \<open>
  \<open>module.run_command\<close> belongs to the host framework; it is a parameter that maps
  the command line to \<open>(rc, stdout, stderr)\<close> or to the exception it raises.
\<close>

datatype cmdline = Shell string | Argv "string list"

definition run_tso_command ::
  "string \<Rightarrow> bool option \<Rightarrow> (cmdline \<Rightarrow> py_exn + int \<times> string \<times> string)
     \<Rightarrow> py_exn + string \<times> string \<times> int" where
  "run_tso_command command auth run_command =
     (case (if auth = Some True
            then run_command (Shell (''echo '' @ command @
                   ''| mvscmdauth --pgm=IKJEFT01 --sysprint=* --systsprt=* --systsin=stdin''))
            else run_command (Argv [''tso'', command])) of
        Inl e \<Rightarrow> Inl e
      | Inr (rc, stdout, stderr) \<Rightarrow> Inr (stdout, stderr, rc))"

record tso_result =
  changed :: bool
  original_message :: pyval
  message :: pyval
  result :: pyval

text \<open>
  \<open>exit_json\<close> and \<open>fail_json\<close> end the module run; \<open>Fail_json\<close> carries the \<open>msg\<close>
  keyword when the call gives one.
\<close>

datatype outcome = Exit_json tso_result | Fail_json "string option" tso_result

definition module_params :: "string option \<Rightarrow> bool option \<Rightarrow> pyval" where
  "module_params command auth =
     PyDict [(''command'', case command of None \<Rightarrow> PyNone | Some c \<Rightarrow> PyStr c),
             (''auth'', case auth of None \<Rightarrow> PyNone | Some b \<Rightarrow> PyBool b)]"

definition message_dict :: "string \<Rightarrow> string \<Rightarrow> string \<Rightarrow> pyval" where
  "message_dict msg stdout stderr =
     PyDict [(''msg'', PyStr msg), (''stdout'', PyStr stdout), (''stderr'', PyStr stderr)]"

text \<open>
  The handlers of \<open>run_module\<close>. Nothing under the \<open>try\<close> raises the module's own
  \<open>Error\<close>, so every exception reaches \<open>except Exception\<close>; \<open>format_exc\<close> is the
  traceback text, a parameter.
\<close>

definition unexpected :: "(py_exn \<Rightarrow> string) \<Rightarrow> py_exn \<Rightarrow> tso_result \<Rightarrow> outcome" where
  "unexpected format_exc e r =
     Fail_json (Some (''An unexpected error occurred: '' @ format_exc e)) r"

definition run_module ::
  "(cmdline \<Rightarrow> py_exn + int \<times> string \<times> string) \<Rightarrow> (py_exn \<Rightarrow> string)
     \<Rightarrow> string option \<Rightarrow> bool option \<Rightarrow> outcome" where
  "run_module run_command format_exc command auth =
     (let result0 = \<lparr>changed = False, original_message = PyStr [], message = PyStr [],
                     result = PyStr []\<rparr>
      in if command = None \<or> py_strip (the command) = [] then
           Fail_json (Some (''The '' @ [CHR 0x22] @ ''command'' @ [CHR 0x22] @
                            '' provided was null or an empty string.'')) result0
         else
           (case run_tso_command (the command) auth run_command of
              Inl e \<Rightarrow> unexpected format_exc e result0
            | Inr (stdout, stderr, rc) \<Rightarrow>
                (let ret_code = PyDict [(''code'', PyInt rc), (''msg_code'', PyInt rc),
                                        (''msg_txt'', PyStr [])];
                     content = PyList (map PyStr (splitlines stdout));
                     result1 = result0\<lparr>original_message := module_params command auth,
                                       message := message_dict [] stdout stderr\<rparr>
                 in case build_set [] [ret_code, content] of
                      Inl e \<Rightarrow> unexpected format_exc e result1
                    | Inr s \<Rightarrow>
                        if rc = 0 then
                          Exit_json (result1\<lparr>result := s, changed := True,
                            message := message_dict ''The TSO command execution succeeded.''
                                         stdout stderr\<rparr>)
                        else
                          Fail_json None (result1\<lparr>result := s,
                            message := message_dict ''The TSO command execution failed.''
                                         stdout stderr\<rparr>))))"

section \<open>Sample console output\<close>

text \<open>
  Two console listings in the layout of \<open>d r,a,s\<close> and \<open>d r,a,jn\<close>, and an
  \<open>OperatorCmd.execute\<close> that answers with them; the concrete instances below run
  on these.
\<close>

definition console_a :: string where
  "console_a = ''001 R MV27     STC01533 *001 DFS3139I IMS INITIALIZED,'' @ [CHR 0x0A] @
               ''       AUTOMATIC RESTART PROCEEDING IM5H'' @ [CHR 0x0A] @
               ''002 R MV29     *002 HWSC0000I *IMS CONNECT READY*'' @ [CHR 0x0A] @
               ''003 R MV2H     JOB00017 &003 DSI802A CNM01 REPLY'' @ [CHR 0x0A] @
               ''004 R MV2H     end''"

definition console_b :: string where
  "console_b = ''001 R IM5HCTRL *001 DFS3139I IMS INITIALIZED, AUTOMATIC'' @ [CHR 0x0A] @
               ''002 R IM5HCONN *002 HWSC0000I *IMS CONNECT READY*  IM5HCONN'' @ [CHR 0x0A] @
               ''003 R MQNETV   &003 DSI802A CNM01 REPLY WITH VALID NCCF''"

definition console :: "string \<Rightarrow> int \<times> string" where
  "console cmd = (if cmd = ''d r,a,s'' then (0, console_a) else (0, console_b))"

text \<open>Three merged records, cut down to the fields the filters read.\<close>

definition rec_mv27 :: pydict where
  "rec_mv27 = [(''number'', ''001''), (''system'', ''MV27''), (''jobname'', ''IM5HCTRL''),
               (''message_id'', ''DFS3139I'')]"

definition rec_mv29 :: pydict where
  "rec_mv29 = [(''number'', ''002''), (''system'', ''MV29''), (''jobname'', ''IM5HCONN''),
               (''message_id'', ''HWSC0000I'')]"

definition rec_mv30 :: pydict where
  "rec_mv30 = [(''number'', ''003''), (''system'', ''MV30''), (''jobname'', ''IM5HCONN''),
               (''message_id'', ''HWSC0000I'')]"

section \<open>The TSO command module\<close>

text \<open>
  C1. For a non-blank command, return code 0 should give a success outcome with the
  message "The TSO command execution succeeded." and a nonzero code a failure with
  "The TSO command execution failed.". The code does not get that far: at return
  code 0 and at return code 8 alike the run ends in \<open>fail_json\<close> with the message of
  the generic handler, and neither of the two messages is set.
\<close>

theorem run_module_rc0_unexpected_error:
  "run_module (\<lambda>c. Inr (0, ''READY'', [])) (\<lambda>e. ''TypeError'') (Some ''LU TESTUSER'') (Some True) =
     Fail_json (Some ''An unexpected error occurred: TypeError'')
       \<lparr>changed = False,
        original_message = PyDict [(''command'', PyStr ''LU TESTUSER''), (''auth'', PyBool True)],
        message = PyDict [(''msg'', PyStr []), (''stdout'', PyStr ''READY''), (''stderr'', PyStr [])],
        result = PyStr []\<rparr> \<and>
   run_module (\<lambda>c. Inr (8, [], ''IKJ56500I COMMAND LX NOT FOUND''))
       (\<lambda>e. ''TypeError'') (Some ''LX'') None =
     Fail_json (Some ''An unexpected error occurred: TypeError'')
       \<lparr>changed = False,
        original_message = PyDict [(''command'', PyStr ''LX''), (''auth'', PyNone)],
        message = PyDict [(''msg'', PyStr []), (''stdout'', PyStr []),
                          (''stderr'', PyStr ''IKJ56500I COMMAND LX NOT FOUND'')],
        result = PyStr []\<rparr>"
  by code_simp

text \<open>
  C2. Whenever the command is non-blank and the external command returns, the set
  display \<open>{ret_code, content}\<close> raises \<open>TypeError\<close> on the dict, the generic handler
  reports "An unexpected error occurred: ..." through \<open>fail_json\<close>, and no input at all
  reaches \<open>exit_json\<close>.
\<close>

theorem run_module_never_exits:
  "(\<forall>r. run_module run_command format_exc command auth \<noteq> Exit_json r) \<and>
   (\<forall>c out err rc.
      command = Some c \<and> py_strip c \<noteq> [] \<and>
      run_tso_command c auth run_command = Inr (out, err, rc) \<longrightarrow>
      build_set [] [PyDict [(''code'', PyInt rc), (''msg_code'', PyInt rc), (''msg_txt'', PyStr [])],
                    PyList (map PyStr (splitlines out))] =
        Inl (TypeError (''unhashable type: '' @ [CHR 0x27] @ ''dict'' @ [CHR 0x27])) \<and>
      run_module run_command format_exc command auth =
        Fail_json (Some (''An unexpected error occurred: '' @
                     format_exc (TypeError (''unhashable type: '' @ [CHR 0x27] @ ''dict'' @ [CHR 0x27]))))
          \<lparr>changed = False, original_message = module_params command auth,
           message = message_dict [] out err, result = PyStr []\<rparr>)"
  by (auto simp: run_module_def unexpected_def unhashable_def Let_def split: sum.splits prod.splits)

theorem run_module_never_exits_witness:
  "py_strip ''LU TESTUSER'' \<noteq> [] \<and>
   run_tso_command ''LU TESTUSER'' None (\<lambda>c. Inr (0, ''READY'', [])) = Inr (''READY'', [], 0) \<and>
   run_module (\<lambda>c. Inr (0, ''READY'', [])) (\<lambda>e. ''TypeError'') (Some ''LU TESTUSER'') None =
     Fail_json (Some ''An unexpected error occurred: TypeError'')
       \<lparr>changed = False, original_message = module_params (Some ''LU TESTUSER'') None,
        message = message_dict [] ''READY'' [], result = PyStr []\<rparr>"
proof -
  have a: "py_strip ''LU TESTUSER'' \<noteq> []"
    by code_simp
  have b: "run_tso_command ''LU TESTUSER'' None (\<lambda>c. Inr (0, ''READY'', [])) = Inr (''READY'', [], 0)"
    by (simp add: run_tso_command_def)
  from a b run_module_never_exits [of "\<lambda>c. Inr (0, ''READY'', [])" "\<lambda>e. ''TypeError''"
      "Some ''LU TESTUSER''" None]
  show ?thesis by simp
qed

section \<open>The operator query: errors\<close>

text \<open>
  C3. When the filtered list is empty the query fails with the fixed advisory
  message. The claim says the error is of a kind of its own, distinct from a command
  failure; the module has two error classes only, and at a concrete console whose
  records no criterion matches the error raised is an \<open>OperatorCmdError\<close>, the class
  a failed command raises.
\<close>

theorem no_request_same_class_counterexample:
  "find_required_request console
     \<lparr>request_number_list = [PStr ''all''], system = Some ''mv3*'', message_id = None,
      jobname = None\<rparr> = Inl (OperatorCmdError no_request_message) \<and>
   execute_command (\<lambda>cmd. (8, ''IEE305I'')) ''d r,a,s'' = Inl (OperatorCmdError ''IEE305I'') \<and>
   class_of (OperatorCmdError no_request_message) = class_of (OperatorCmdError ''IEE305I'')"
  by code_simp

text \<open>
  C3, as amended. Whenever both commands succeed and the filtered list is empty,
  the query fails with \<open>OperatorCmdError\<close> carrying the fixed advisory message, and
  every failure of \<open>execute_command\<close> has that same class.
\<close>

theorem find_required_request_empty_is_OperatorCmdError:
  "(create_merge_list ex = Inr merged \<and> filter_requests merged p = Inr [] \<longrightarrow>
      find_required_request ex p = Inl (OperatorCmdError no_request_message)) \<and>
   (\<forall>ex' cmd e. execute_command ex' cmd = Inl e \<longrightarrow>
      class_of e = class_of (OperatorCmdError no_request_message))"
  by (auto simp: find_required_request_def execute_command_def Let_def split: if_splits)

theorem find_required_request_empty_is_OperatorCmdError_witness:
  "create_merge_list (\<lambda>cmd. (0, ''IEE112I NO OUTSTANDING REQUESTS'')) = Inr [] \<and>
   filter_requests []
     \<lparr>request_number_list = [PStr ''all''], system = None, message_id = None, jobname = None\<rparr> =
     Inr [] \<and>
   find_required_request (\<lambda>cmd. (0, ''IEE112I NO OUTSTANDING REQUESTS''))
     \<lparr>request_number_list = [PStr ''all''], system = None, message_id = None, jobname = None\<rparr> =
     Inl (OperatorCmdError no_request_message) \<and>
   execute_command (\<lambda>cmd. (8, ''IEE305I'')) ''d r,a,s'' = Inl (OperatorCmdError ''IEE305I'') \<and>
   class_of (OperatorCmdError ''IEE305I'') = class_of (OperatorCmdError no_request_message)"
proof -
  have a: "create_merge_list (\<lambda>cmd. (0, ''IEE112I NO OUTSTANDING REQUESTS'')) = Inr []"
    by code_simp
  have b: "filter_requests []
     \<lparr>request_number_list = [PStr ''all''], system = None, message_id = None, jobname = None\<rparr> =
     Inr []"
    by code_simp
  have c: "execute_command (\<lambda>cmd. (8, ''IEE305I'')) ''d r,a,s'' = Inl (OperatorCmdError ''IEE305I'')"
    by (simp add: execute_command_def)
  from a b c find_required_request_empty_is_OperatorCmdError
      [of "\<lambda>cmd. (0, ''IEE112I NO OUTSTANDING REQUESTS'')" "[]"
          "\<lparr>request_number_list = [PStr ''all''], system = None, message_id = None, jobname = None\<rparr>"]
  show ?thesis by blast
qed

text \<open>
  What \<open>execute_command\<close> does on every status code: the guard is \<open>rc > 0\<close>.
\<close>

lemma execute_command_positive_rc:
  "(0 < fst (ex cmd) \<longrightarrow> execute_command ex cmd = Inl (OperatorCmdError (snd (ex cmd)))) \<and>
   (fst (ex cmd) \<le> 0 \<longrightarrow> execute_command ex cmd = Inr (snd (ex cmd)))"
  by (simp add: execute_command_def Let_def)

text \<open>
  C8. \<open>execute_command\<close> is to raise \<open>OperatorCmdError\<close> carrying the returned
  message exactly when the status code is nonzero, and the module's RETURN
  documentation says the same ("If a non-zero 'rc' is returned, then the message it
  will be 'An error occurred during issue the operator command"). The code tests
  \<open>rc > 0\<close>: at the positive code 8 it raises, but at the nonzero code \<open>-1\<close> it
  raises nothing and returns the message as if it were console output, and the
  query then goes on to parse that text and ends with the "no such request" error.
\<close>

theorem execute_command_negative_rc_no_error:
  "(- 1 :: int) \<noteq> 0 \<and>
   execute_command (\<lambda>cmd. (- 1, ''IEE305I COMMAND INVALID'')) ''d r,a,s'' =
     Inr ''IEE305I COMMAND INVALID'' \<and>
   execute_command (\<lambda>cmd. (8, ''IEE305I COMMAND INVALID'')) ''d r,a,s'' =
     Inl (OperatorCmdError ''IEE305I COMMAND INVALID'') \<and>
   find_required_request (\<lambda>cmd. (- 1, ''IEE305I COMMAND INVALID''))
     \<lparr>request_number_list = [PStr ''all''], system = None, message_id = None, jobname = None\<rparr> =
     Inl (OperatorCmdError no_request_message)"
  by code_simp

section \<open>The operator query: validation\<close>

lemma request_number_list_loop_find:
  "request_number_list_loop vs =
     (case find (\<lambda>v. py_truthy v \<and> v \<noteq> PStr ''all'' \<and>
                      \<not> re_search regex_request_number (py_str v)) vs of
        Some v \<Rightarrow> Inl (ValidationError (py_str v))
      | None \<Rightarrow> Inr ())"
  by (induction vs) (auto simp: validate_parameters_based_on_regex_def)

text \<open>
  C9. The claim has every entry other than "all" checked against \<open>^[0-9]{2,}$\<close>. The
  loop checks an entry only \<open>if value and value != 'all'\<close>: the empty string is not
  "all" and does not match, and the list that holds it is returned without an error.
\<close>

theorem request_number_list_empty_entry_counterexample:
  "PStr [] \<noteq> PStr ''all'' \<and> \<not> re_search regex_request_number (py_str (PStr [])) \<and>
   request_number_list_type [PStr []] = Inr [PStr []]"
  by code_simp

text \<open>
  C9, as amended. Validation raises \<open>ValidationError\<close> naming the first entry that is
  truthy (not the empty string, not the integer 0), is not the literal "all" and
  fails \<open>^[0-9]{2,}$\<close>; when there is no such entry the list is returned unchanged.
\<close>

theorem request_number_list_type_first_offender:
  "request_number_list_type vs =
     (case find (\<lambda>v. py_truthy v \<and> v \<noteq> PStr ''all'' \<and>
                      \<not> re_search regex_request_number (py_str v)) vs of
        Some v \<Rightarrow> Inl (ValidationError (py_str v))
      | None \<Rightarrow> Inr vs)"
  by (simp add: request_number_list_type_def request_number_list_loop_find split: option.split)

theorem request_number_list_type_first_offender_witness:
  "request_number_list_type [PStr ''12'', PStr ''all'', PInt 7, PStr ''x''] =
     Inl (ValidationError ''7'') \<and>
   request_number_list_type [PStr ''12'', PStr ''all'', PInt 107, PStr []] =
     Inr [PStr ''12'', PStr ''all'', PInt 107, PStr []]"
  using request_number_list_type_first_offender [of "[PStr ''12'', PStr ''all'', PInt 7, PStr ''x'']"]
        request_number_list_type_first_offender [of "[PStr ''12'', PStr ''all'', PInt 107, PStr []]"]
  by code_simp

section \<open>The operator query: parsing\<close>

text \<open>
  C10. The parsers are partial: a Form A line that matches the header without job id
  and has three tokens only, and a Form B header line of four tokens, each make the
  parser raise \<open>IndexError\<close> instead of returning records.
\<close>

theorem parsers_raise_IndexError:
  "re_search pattern_without_job_id (py_strip ''12 R SYS'') \<and>
   parse_result_a ''12 R SYS'' = Inl IndexError \<and>
   re_search pattern_with_jobname (py_strip ''215 R IM5GCONN *215'') \<and>
   parse_result_b ''215 R IM5GCONN *215'' = Inl IndexError"
  by code_simp

section \<open>The operator query: merging\<close>

lemma map_of_dict_setitem: "map_of (dict_setitem d k v) = (map_of d)(k \<mapsto> v)"
  by (induction d k v rule: dict_setitem.induct) (auto simp: fun_upd_twist)

lemma map_of_dict_update_rev: "map_of (dict_update d e) = map_of d ++ map_of (rev e)"
  unfolding dict_update_def
proof (induction e arbitrary: d)
  case Nil
  then show ?case by simp
next
  case (Cons kv e)
  obtain k v where kv: "kv = (k, v)" by (cases kv)
  have "map_of (foldl (\<lambda>acc (k, v). dict_setitem acc k v) d (kv # e)) =
        map_of (dict_setitem d k v) ++ map_of (rev e)"
    using Cons.IH [of "dict_setitem d k v"] by (simp add: kv)
  also have "\<dots> = map_of d ++ map_of (rev (kv # e))"
    by (simp add: kv map_of_dict_setitem map_add_def fun_eq_iff split: option.splits)
  finally show ?case .
qed

lemma map_of_dict_update:
  "distinct (map fst e) \<Longrightarrow> map_of (dict_update d e) = map_of d ++ map_of e"
proof -
  assume d: "distinct (map fst e)"
  then have "distinct (map fst (rev e))"
    by (simp add: rev_map [symmetric])
  with d have "map_of (rev e) = map_of e"
    by (simp add: map_of_inject_set)
  then show ?thesis
    by (simp add: map_of_dict_update_rev)
qed

lemma merge_inner_filter:
  "merge_inner a acc lb =
     acc @ map (dict_update a) (filter (\<lambda>b. map_of a ''number'' = map_of b ''number'') lb)"
  unfolding merge_inner_def by (induction lb arbitrary: acc) auto

lemma merge_fold_product:
  "foldl (\<lambda>acc a. merge_inner a acc lb) acc la =
     acc @ map (\<lambda>(a, b). dict_update a b)
             (filter (\<lambda>(a, b). map_of a ''number'' = map_of b ''number'') (List.product la lb))"
proof (induction la arbitrary: acc)
  case Nil
  then show ?case by simp
next
  case (Cons a la)
  have "filter (\<lambda>(a, b). map_of a ''number'' = map_of b ''number'') (map (Pair a) lb) =
        map (Pair a) (filter (\<lambda>b. map_of a ''number'' = map_of b ''number'') lb)"
    by (induction lb) auto
  with Cons.IH [of "merge_inner a acc lb"] show ?case
    by (simp add: merge_inner_filter comp_def)
qed

text \<open>
  C5. \<open>merge_list\<close> is an inner join on the number field: its output is, in order,
  one record for every pair of a record of the first list and a record of the second
  with the same \<open>number\<close>, namely the first overlaid by the second (the second wins
  on a shared key), and every output record comes from such a pair, so a number
  present in one list only gives no record.
\<close>

theorem merge_list_inner_join:
  "merge_list la lb =
     map (\<lambda>(a, b). dict_update a b)
       (filter (\<lambda>(a, b). map_of a ''number'' = map_of b ''number'') (List.product la lb)) \<and>
   (\<forall>a b. distinct (map fst b) \<longrightarrow> map_of (dict_update a b) = map_of a ++ map_of b) \<and>
   (\<forall>z \<in> set (merge_list la lb). \<exists>a \<in> set la. \<exists>b \<in> set lb.
       map_of a ''number'' = map_of b ''number'' \<and> z = dict_update a b)"
proof -
  have eq: "merge_list la lb =
     map (\<lambda>(a, b). dict_update a b)
       (filter (\<lambda>(a, b). map_of a ''number'' = map_of b ''number'') (List.product la lb))"
    unfolding merge_list_def using merge_fold_product [of lb "[]" la] by simp
  have "\<forall>z \<in> set (merge_list la lb). \<exists>a \<in> set la. \<exists>b \<in> set lb.
       map_of a ''number'' = map_of b ''number'' \<and> z = dict_update a b"
    unfolding eq by auto
  with eq show ?thesis
    by (simp add: map_of_dict_update)
qed

theorem merge_list_inner_join_witness:
  "distinct (map fst [(''number'', ''1''), (''b'', ''2'')]) \<and>
   map_of (dict_update [(''number'', ''1''), (''a'', ''1'')] [(''number'', ''1''), (''b'', ''2'')]) =
     map_of [(''number'', ''1''), (''a'', ''1'')] ++ map_of [(''number'', ''1''), (''b'', ''2'')] \<and>
   merge_list [[(''number'', ''1''), (''a'', ''1'')]] [[(''number'', ''1''), (''b'', ''2'')]] =
     [[(''number'', ''1''), (''a'', ''1''), (''b'', ''2'')]] \<and>
   merge_list [[(''number'', ''1''), (''a'', ''1'')]] [[(''number'', ''2''), (''b'', ''2'')]] = [] \<and>
   (\<exists>a \<in> set [[(''number'', ''1''), (''a'', ''1'')]]. \<exists>b \<in> set [[(''number'', ''1''), (''b'', ''2'')]].
       map_of a ''number'' = map_of b ''number'' \<and>
       [(''number'', ''1''), (''a'', ''1''), (''b'', ''2'')] = dict_update a b)"
proof -
  let ?a = "[(''number'', ''1''), (''a'', ''1'')]"
  let ?b = "[(''number'', ''1''), (''b'', ''2'')]"
  let ?c = "[(''number'', ''2''), (''b'', ''2'')]"
  note t1 = merge_list_inner_join [of "[?a]" "[?b]"]
  have d: "distinct (map fst ?b)" by simp
  have m1: "merge_list [?a] [?b] = [[(''number'', ''1''), (''a'', ''1''), (''b'', ''2'')]]"
    by code_simp
  have m2: "merge_list [?a] [?c] = []"
    by code_simp
  have ov: "map_of (dict_update ?a ?b) = map_of ?a ++ map_of ?b"
    using t1 d by blast
  have ex: "\<exists>a \<in> set [?a]. \<exists>b \<in> set [?b]. map_of a ''number'' = map_of b ''number'' \<and>
       [(''number'', ''1''), (''a'', ''1''), (''b'', ''2'')] = dict_update a b"
    by code_simp
  from d ov m1 m2 ex show ?thesis by blast
qed

section \<open>The operator query: filtering\<close>

lemma first_with_number_find:
  "first_with_number num ds =
     (case find (\<lambda>d. map_of d ''number'' = Some num) ds of None \<Rightarrow> [] | Some d \<Rightarrow> [d])"
  by (induction ds) auto

lemma foldl_append_concat:
  "foldl (\<lambda>acc x. acc @ f x) acc xs = acc @ concat (map f xs)"
  by (induction xs arbitrary: acc) auto

text \<open>
  C7. Number selection: when the request list holds "all" in any letter case the
  merged list is kept as it is; otherwise, for each requested number in list order,
  the first record of the merged list whose \<open>number\<close> equals it is kept (none when
  no record has it). With no other criterion this is the result of the filter.
\<close>

theorem select_numbers_all_or_first_match:
  "(''all'' \<in> set (map (\<lambda>r. py_lower (py_str r)) rnl) \<longrightarrow> select_numbers rnl merged = merged) \<and>
   (''all'' \<notin> set (map (\<lambda>r. py_lower (py_str r)) rnl) \<longrightarrow>
      select_numbers rnl merged =
        concat (map (\<lambda>num. case find (\<lambda>d. map_of d ''number'' = Some (py_str num)) merged of
                              None \<Rightarrow> [] | Some d \<Rightarrow> [d]) rnl)) \<and>
   filter_requests merged
     \<lparr>request_number_list = rnl, system = None, message_id = None, jobname = None\<rparr> =
     Inr (select_numbers rnl merged)"
  by (simp add: select_numbers_def foldl_append_concat first_with_number_find
        filter_requests_def apply_condition_def)


theorem select_numbers_all_or_first_match_witness:
  "''all'' \<in> set (map (\<lambda>r. py_lower (py_str r)) [PStr ''ALL'']) \<and>
   select_numbers [PStr ''ALL''] [rec_mv27, rec_mv29, rec_mv30] = [rec_mv27, rec_mv29, rec_mv30] \<and>
   ''all'' \<notin> set (map (\<lambda>r. py_lower (py_str r)) [PStr ''003'', PInt 7, PStr ''001'']) \<and>
   select_numbers [PStr ''003'', PInt 7, PStr ''001'']
     [rec_mv27, rec_mv29, rec_mv30, (''extra'', ''x'') # rec_mv30] = [rec_mv30, rec_mv27]"
  using select_numbers_all_or_first_match [of "[PStr ''ALL'']" "[rec_mv27, rec_mv29, rec_mv30]"]
        select_numbers_all_or_first_match [of "[PStr ''003'', PInt 7, PStr ''001'']"
          "[rec_mv27, rec_mv29, rec_mv30, (''extra'', ''x'') # rec_mv30]"]
  by code_simp

lemma rmatch_literal: "rmatch (literal_pattern p) b s \<longleftrightarrow> prefix p s"
proof (induction p arbitrary: b s)
  case Nil
  then show ?case by (simp add: literal_pattern_def)
next
  case (Cons c p)
  have step: "rmatch (literal_pattern (c # p)) b s =
      list_ex (\<lambda>k. rmatch (literal_pattern p) (b \<and> k = 0) (drop k s))
        [1 ..< Suc (min 1 (length (takeWhile (\<lambda>d. d = c) s)))]"
    by (simp add: literal_pattern_def Let_def)
  show ?case
  proof (cases s)
    case Nil
    then show ?thesis unfolding step by simp
  next
    case (Cons x xs)
    show ?thesis
    proof (cases "x = c")
      case True
      with Cons have "[1 ..< Suc (min 1 (length (takeWhile (\<lambda>d. d = c) s)))] = [1]"
        by simp
      with True Cons show ?thesis
        unfolding step by (simp add: Cons.IH)
    next
      case False
      with Cons show ?thesis unfolding step by simp
    qed
  qed
qed

lemma re_search_literal: "re_search (literal_pattern p) s \<longleftrightarrow> sublist p s"
proof
  assume "re_search (literal_pattern p) s"
  then obtain k where "prefix p (drop k s)"
    unfolding re_search_def list_ex_iff rmatch_literal by blast
  moreover have "suffix (drop k s) s"
    by (rule suffix_drop)
  ultimately show "sublist p s"
    unfolding sublist_altdef' by blast
next
  assume "sublist p s"
  then obtain ps ss where s: "s = ps @ p @ ss"
    by (auto simp: sublist_def)
  then have "prefix p (drop (length ps) s)" and "length ps \<in> set [0 ..< Suc (length s)]"
    by simp_all
  then show "re_search (literal_pattern p) s"
    unfolding re_search_def list_ex_iff rmatch_literal by blast
qed

lemma handle_loop_filter:
  "\<forall>d \<in> set l. map_of d ct \<noteq> None \<Longrightarrow>
   handle_loop regex ct acc l =
     Inr (acc @ filter (\<lambda>d. re_search regex (the (map_of d ct))) l)"
  by (induction l arbitrary: acc) auto

lemma handle_conditions_filter:
  "\<forall>d \<in> set l. map_of d ct \<noteq> None \<Longrightarrow> \<not> list_ex is_meta cv \<Longrightarrow>
   handle_conditions l ct cv = Inr (filter (\<lambda>d. sublist cv (the (map_of d ct))) l)"
  by (simp add: handle_conditions_def re_compile_def handle_loop_filter re_search_literal)

lemma apply_condition_filter:
  assumes "\<forall>d \<in> set l. map_of d ct \<noteq> None" and "literal_criterion crit"
  shows "apply_condition ct crit l = Inr (filter (criterion_holds ct crit) l)"
proof (cases crit)
  case None
  then show ?thesis
    by (simp add: apply_condition_def criterion_holds_def)
next
  case (Some v)
  show ?thesis
  proof (cases "v = []")
    case True
    with Some show ?thesis
      by (simp add: apply_condition_def criterion_holds_def)
  next
    case False
    from assms(2) Some have lit: "\<not> list_ex is_meta (strip_star (py_upper v))"
      by (simp add: literal_criterion_def)
    have "filter (\<lambda>d. sublist (strip_star (py_upper v)) (the (map_of d ct))) l =
          filter (criterion_holds ct crit) l"
      using assms(1) Some False
      by (intro filter_cong) (auto simp: criterion_holds_def)
    with False Some handle_conditions_filter [OF assms(1) lit] show ?thesis
      by (simp add: apply_condition_def)
  qed
qed

lemma set_first_with_number: "set (first_with_number num ds) \<subseteq> set ds"
  by (induction ds) auto

lemma set_select_fold:
  "set (foldl (\<lambda>newlist num. newlist @ first_with_number (py_str num) merged) acc rnl)
     \<subseteq> set acc \<union> set merged"
proof (induction rnl arbitrary: acc)
  case Nil
  then show ?case by simp
next
  case (Cons r rnl)
  from Cons [of "acc @ first_with_number (py_str r) merged"]
    set_first_with_number [of "py_str r" merged]
  show ?case by auto
qed

lemma set_select_numbers: "set (select_numbers rnl merged) \<subseteq> set merged"
  using set_select_fold [of merged "[]" rnl] by (simp add: select_numbers_def)

text \<open>
  C6. On records that have the fields \<open>system\<close>, \<open>jobname\<close> and \<open>message_id\<close>, and
  for criteria whose upper-cased, wildcard-stripped value has no regular-expression
  metacharacter, each criterion that is present keeps exactly the records whose
  field contains that value as a substring; the three filters run in the order
  system, jobname, message_id on the number selection, and together keep the records
  that pass all of them. The instance has "MV2*" keep both MV27 and MV29.
\<close>

theorem filter_requests_conjunctive:
  assumes fields: "list_all has_filter_fields merged"
    and sys: "literal_criterion (system p)"
    and job: "literal_criterion (jobname p)"
    and mid: "literal_criterion (message_id p)"
  shows "filter_requests merged p =
           Inr (filter (criterion_holds ''message_id'' (message_id p))
                 (filter (criterion_holds ''jobname'' (jobname p))
                   (filter (criterion_holds ''system'' (system p))
                     (select_numbers (request_number_list p) merged)))) \<and>
         filter_requests merged p =
           Inr (filter (\<lambda>d. criterion_holds ''system'' (system p) d \<and>
                             criterion_holds ''jobname'' (jobname p) d \<and>
                             criterion_holds ''message_id'' (message_id p) d)
                 (select_numbers (request_number_list p) merged))"
proof -
  let ?l0 = "select_numbers (request_number_list p) merged"
  let ?l1 = "filter (criterion_holds ''system'' (system p)) ?l0"
  let ?l2 = "filter (criterion_holds ''jobname'' (jobname p)) ?l1"
  have all: "\<forall>d \<in> set ?l0. has_filter_fields d"
    using fields set_select_numbers [of "request_number_list p" merged]
    by (auto simp: list_all_iff)
  have f0: "\<forall>d \<in> set ?l0. map_of d ''system'' \<noteq> None"
    using all by (simp add: has_filter_fields_def)
  have f1: "\<forall>d \<in> set ?l1. map_of d ''jobname'' \<noteq> None"
    using all by (simp add: has_filter_fields_def)
  have f2: "\<forall>d \<in> set ?l2. map_of d ''message_id'' \<noteq> None"
    using all by (simp add: has_filter_fields_def)
  have s0: "apply_condition ''system'' (system p) ?l0 = Inr ?l1"
    by (rule apply_condition_filter [OF f0 sys])
  have s1: "apply_condition ''jobname'' (jobname p) ?l1 = Inr ?l2"
    by (rule apply_condition_filter [OF f1 job])
  have s2: "apply_condition ''message_id'' (message_id p) ?l2 =
      Inr (filter (criterion_holds ''message_id'' (message_id p)) ?l2)"
    by (rule apply_condition_filter [OF f2 mid])
  have nested: "filter_requests merged p =
      Inr (filter (criterion_holds ''message_id'' (message_id p)) ?l2)"
    by (simp only: filter_requests_def s0 s1 s2 sum.case)
  moreover have "filter (criterion_holds ''message_id'' (message_id p)) ?l2 =
      filter (\<lambda>d. criterion_holds ''system'' (system p) d \<and>
                   criterion_holds ''jobname'' (jobname p) d \<and>
                   criterion_holds ''message_id'' (message_id p) d) ?l0"
    by (simp add: conj_commute conj_left_commute)
  ultimately show ?thesis by simp
qed

theorem filter_requests_conjunctive_witness:
  "list_all has_filter_fields [rec_mv27, rec_mv29, rec_mv30] \<and>
   literal_criterion (Some ''MV2*'') \<and> literal_criterion (Some ''im5*'') \<and>
   literal_criterion (Some ''hwsc'') \<and>
   strip_star (py_upper ''MV2*'') = ''MV2'' \<and>
   filter_requests [rec_mv27, rec_mv29, rec_mv30]
     \<lparr>request_number_list = [PStr ''all''], system = Some ''MV2*'', message_id = None,
      jobname = None\<rparr> = Inr [rec_mv27, rec_mv29] \<and>
   filter_requests [rec_mv27, rec_mv29, rec_mv30]
     \<lparr>request_number_list = [PStr ''all''], system = Some ''MV2*'', message_id = Some ''hwsc'',
      jobname = Some ''im5*''\<rparr> = Inr [rec_mv29] \<and>
   filter (\<lambda>d. criterion_holds ''system'' (Some ''MV2*'') d \<and>
                criterion_holds ''jobname'' (Some ''im5*'') d \<and>
                criterion_holds ''message_id'' (Some ''hwsc'') d)
     (select_numbers [PStr ''all''] [rec_mv27, rec_mv29, rec_mv30]) = [rec_mv29]"
proof -
  let ?p = "\<lparr>request_number_list = [PStr ''all''], system = Some ''MV2*'',
             message_id = Some ''hwsc'', jobname = Some ''im5*''\<rparr>"
  have a: "list_all has_filter_fields [rec_mv27, rec_mv29, rec_mv30]" by code_simp
  have b: "literal_criterion (Some ''MV2*'')" "literal_criterion (Some ''im5*'')"
    "literal_criterion (Some ''hwsc'')" by code_simp+
  have c: "strip_star (py_upper ''MV2*'') = ''MV2''" by code_simp
  have d1: "filter_requests [rec_mv27, rec_mv29, rec_mv30]
     \<lparr>request_number_list = [PStr ''all''], system = Some ''MV2*'', message_id = None,
      jobname = None\<rparr> = Inr [rec_mv27, rec_mv29]"
    by code_simp
  have d2: "filter_requests [rec_mv27, rec_mv29, rec_mv30] ?p = Inr [rec_mv29]"
    by code_simp
  from filter_requests_conjunctive [of "[rec_mv27, rec_mv29, rec_mv30]" ?p] a b d2
  have e: "filter (\<lambda>d. criterion_holds ''system'' (Some ''MV2*'') d \<and>
                criterion_holds ''jobname'' (Some ''im5*'') d \<and>
                criterion_holds ''message_id'' (Some ''hwsc'') d)
     (select_numbers [PStr ''all''] [rec_mv27, rec_mv29, rec_mv30]) = [rec_mv29]"
    by simp
  from a b c d1 d2 e show ?thesis by blast
qed

section \<open>The operator query: where the hypotheses of the filter theorem hold\<close>

text \<open>
  The two hypotheses of \<open>filter_requests_conjunctive\<close> hold on the values the
  module itself produces: every record of \<open>create_merge_list\<close> has the three fields
  the filters read, and every criterion accepted by \<open>system_type\<close>, \<open>jobname_type\<close>
  or \<open>message_id_type\<close> gives a pattern without metacharacters.
\<close>

lemma parse_b_line_fields:
  assumes "parse_b_line acc raw = Inr acc'"
    and "\<forall>b \<in> set acc. map_of b ''jobname'' \<noteq> None \<and> map_of b ''message_id'' \<noteq> None"
  shows "\<forall>b \<in> set acc'. map_of b ''jobname'' \<noteq> None \<and> map_of b ''message_id'' \<noteq> None"
  using assms by (auto simp: parse_b_line_def Let_def split: if_splits)

lemma parse_b_loop_fields:
  assumes "parse_b_loop acc ls = Inr out"
    and "\<forall>b \<in> set acc. map_of b ''jobname'' \<noteq> None \<and> map_of b ''message_id'' \<noteq> None"
  shows "\<forall>b \<in> set out. map_of b ''jobname'' \<noteq> None \<and> map_of b ''message_id'' \<noteq> None"
  using assms
proof (induction ls arbitrary: acc)
  case Nil
  then show ?case by simp
next
  case (Cons raw ls)
  from Cons.prems(1) obtain acc' where
    step: "parse_b_line acc raw = Inr acc'" and rest: "parse_b_loop acc' ls = Inr out"
    by (auto split: sum.splits)
  from Cons.IH [OF rest parse_b_line_fields [OF step Cons.prems(2)]] show ?case .
qed

lemma parse_a_line_system:
  assumes "parse_a_line n i st raw = Inr st'" and "system_known st"
  shows "system_known st'"
  using assms
  by (auto simp: parse_a_line_def system_known_def Let_def flush_def map_of_dict_setitem
           split: if_splits)

lemma parse_a_loop_system:
  assumes "parse_a_loop n i st ls = Inr st'" and "system_known st"
  shows "system_known st'"
  using assms
proof (induction ls arbitrary: i st)
  case Nil
  then show ?case by simp
next
  case (Cons raw ls)
  from Cons.prems(1) obtain st1 where
    step: "parse_a_line n i st raw = Inr st1" and rest: "parse_a_loop n (Suc i) st1 ls = Inr st'"
    by (auto split: sum.splits)
  from Cons.IH [OF rest parse_a_line_system [OF step Cons.prems(2)]] show ?case .
qed

lemma parse_result_a_system:
  assumes "parse_result_a text = Inr out"
  shows "\<forall>a \<in> set out. map_of a ''system'' \<noteq> None"
proof -
  from assms obtain st' where
    run: "parse_a_loop (length (py_split_all CHR 0x0A text)) 0 parse_a_init
            (py_split_all CHR 0x0A text) = Inr st'"
    and out: "out = lst st'"
    by (auto simp: parse_result_a_def Let_def split: sum.splits)
  have "system_known parse_a_init"
    by (simp add: system_known_def parse_a_init_def)
  from parse_a_loop_system [OF run this] out show ?thesis
    by (simp add: system_known_def)
qed

lemma map_of_rev_None: "map_of (rev e) k = None \<longleftrightarrow> map_of e k = None"
  by (simp add: map_of_eq_None_iff)

lemma dict_update_field:
  "map_of (dict_update a b) k \<noteq> None \<longleftrightarrow> map_of a k \<noteq> None \<or> map_of b k \<noteq> None"
  using map_of_rev_None [of b k]
  by (auto simp: map_of_dict_update_rev map_add_def split: option.splits)

lemma create_merge_list_has_filter_fields:
  assumes "create_merge_list ex = Inr merged"
  shows "list_all has_filter_fields merged"
proof -
  from assms obtain la lb ma mb where
    a: "parse_result_a ma = Inr la" and b: "parse_result_b mb = Inr lb"
    and m: "merged = merge_list la lb"
    by (auto simp: create_merge_list_def split: sum.splits)
  from b have fb: "\<forall>b \<in> set lb. map_of b ''jobname'' \<noteq> None \<and> map_of b ''message_id'' \<noteq> None"
    using parse_b_loop_fields [of "[]"] by (simp add: parse_result_b_def)
  note fa = parse_result_a_system [OF a]
  have "\<forall>z \<in> set (merge_list la lb). \<exists>a \<in> set la. \<exists>b \<in> set lb. z = dict_update a b"
    using merge_fold_product [of lb "[]" la] by (auto simp: merge_list_def)
  then have pairs: "\<forall>z \<in> set merged. \<exists>a \<in> set la. \<exists>b \<in> set lb. z = dict_update a b"
    by (simp add: m)
  show ?thesis
    unfolding list_all_iff
  proof
    fix z
    assume "z \<in> set merged"
    with pairs obtain a b where ab: "a \<in> set la" "b \<in> set lb" and z: "z = dict_update a b"
      by blast
    from ab fa fb have "map_of a ''system'' \<noteq> None" "map_of b ''jobname'' \<noteq> None"
      "map_of b ''message_id'' \<noteq> None"
      by blast+
    then have "map_of z ''system'' \<noteq> None" "map_of z ''jobname'' \<noteq> None"
      "map_of z ''message_id'' \<noteq> None"
      unfolding z dict_update_field by blast+
    then show "has_filter_fields z"
      unfolding has_filter_fields_def by blast
  qed
qed

lemma set_strip_by: "set (strip_by P s) \<subseteq> set s"
proof -
  have "set (dropWhile P (rev (dropWhile P s))) \<subseteq> set (rev (dropWhile P s))"
    by (rule set_dropWhileD [THEN subsetI])
  also have "\<dots> \<subseteq> set s"
    using set_dropWhileD [of _ P s] by auto
  finally show ?thesis
    by (simp add: strip_by_def)
qed

lemma list_ex_upt: "list_ex P [lo ..< Suc hi] \<longleftrightarrow> (\<exists>k. lo \<le> k \<and> k \<le> hi \<and> P k)"
  by (auto simp: list_ex_iff)

lemma name_chars_not_meta:
  "list_all (\<lambda>c. \<not> is_meta (upper_char c))
     (''abcdefghijklmnopqrstuvwxyz'' @ ''ABCDEFGHIJKLMNOPQRSTUVWXYZ'' @ ''0123456789'' @ [CHR 0x0A])"
  by code_simp

lemma alnum_not_meta:
  assumes "is_alnum c \<or> c = CHR 0x0A"
  shows "\<not> is_meta (upper_char c)"
proof -
  from assms have "c \<in> set (''abcdefghijklmnopqrstuvwxyz'' @ ''ABCDEFGHIJKLMNOPQRSTUVWXYZ'' @
                            ''0123456789'' @ [CHR 0x0A])"
    unfolding is_alnum_def is_lower_def is_upper_def is_digit_def set_append Un_iff
    by (elim disjE) simp_all
  with name_chars_not_meta show ?thesis
    unfolding list_all_iff by blast
qed

lemma take_within_run:
  "k \<le> length (takeWhile P s) \<Longrightarrow> \<forall>c \<in> set (take k s). P c"
proof (induction s arbitrary: k)
  case Nil
  then show ?case by simp
next
  case (Cons x xs)
  then show ?case
    by (cases k) (auto split: if_splits)
qed

lemma rmatch_name:
  assumes "rmatch regex_name b s"
  shows "\<forall>c \<in> set s. is_alnum c \<or> c = CHR 0x0A"
proof -
  from assms have "\<exists>k. 1 \<le> k \<and> k \<le> min 8 (length (takeWhile is_alnum s)) \<and>
      (drop k s = [] \<or> drop k s = [CHR 0x0A])"
    by (simp only: regex_name_def rmatch.simps Let_def option.case list_ex_upt simp_thms)
  then obtain k where k: "k \<le> length (takeWhile is_alnum s)"
    and rest: "drop k s = [] \<or> drop k s = [CHR 0x0A]"
    by auto
  from take_within_run [OF k] have "\<forall>c \<in> set (take k s). is_alnum c" .
  moreover from rest have "\<forall>c \<in> set (drop k s). c = CHR 0x0A"
    by auto
  moreover have "set s = set (take k s) \<union> set (drop k s)"
    by (metis append_take_drop_id set_append)
  ultimately show ?thesis by blast
qed

lemma validated_value_literal:
  assumes "validate_parameters_based_on_regex a regex_name = Inr r"
  shows "literal_criterion (Some a)"
proof -
  from assms have "re_search regex_name a"
    by (simp add: validate_parameters_based_on_regex_def split: if_splits)
  then obtain k where m: "rmatch regex_name (k = 0) (drop k a)"
    unfolding re_search_def list_ex_upt by blast
  then have "k = 0"
    by (simp add: regex_name_def)
  with m have "rmatch regex_name True a"
    by simp
  from rmatch_name [OF this] have "\<forall>c \<in> set a. \<not> is_meta (upper_char c)"
    using alnum_not_meta by blast
  then have "\<forall>c \<in> set (py_upper a). \<not> is_meta c"
    by (simp add: py_upper_def)
  with set_strip_by [of "\<lambda>c. c = CHR ''*''" "py_upper a"]
  show ?thesis
    by (auto simp: literal_criterion_def list_ex_iff strip_star_def)
qed

lemma system_type_validated:
  "system_type a = Inr v \<Longrightarrow> \<exists>r. validate_parameters_based_on_regex v regex_name = Inr r"
  by (simp add: system_type_def Let_def split: sum.splits if_splits)

lemma jobname_type_validated:
  "jobname_type a = Inr v \<Longrightarrow> \<exists>r. validate_parameters_based_on_regex v regex_name = Inr r"
  by (simp add: jobname_type_def Let_def split: sum.splits if_splits)

lemma message_id_type_validated:
  "message_id_type a = Inr v \<Longrightarrow> \<exists>r. validate_parameters_based_on_regex v regex_name = Inr r"
  by (simp add: message_id_type_def Let_def split: sum.splits if_splits)

lemma validated_criteria_are_literal:
  "(system_type a = Inr v \<longrightarrow> literal_criterion (Some v)) \<and>
   (jobname_type a = Inr v \<longrightarrow> literal_criterion (Some v)) \<and>
   (message_id_type a = Inr v \<longrightarrow> literal_criterion (Some v))"
  using system_type_validated jobname_type_validated message_id_type_validated
    validated_value_literal by blast

section \<open>The operator query: the open record at the end of the input\<close>







end
